theory Spec2Isabelle
  imports Main
begin

section \<open>Values, errors and the observable effects of a call\<close>

text \<open>
  The client is Python 2. A JSON object is a dictionary; the code only reads string
  fields (\<open>state\<close>, \<open>download_url\<close>, \<open>file_ext\<close>, \<open>name\<close>, \<open>id\<close>), so a
  dictionary is an association list from field names to strings. The empty list is the
  empty (falsy) value of \<open>if contents:\<close>.
\<close>

type_synonym dict = "(string \<times> string) list"

text \<open>
  Exceptions are values. \<open>TransportError\<close> stands for whatever the HTTP layer below
  \<open>Client\<close> raises; \<open>HTTPError\<close> is what \<open>raise_for_status\<close> raises.
\<close>

datatype error =
    ValueError string
  | KeyError string
  | NameError string
  | DatasetStateException string
  | DatasetTimeoutException string
  | HTTPError int
  | TransportError string

text \<open>
  A \<open>requests\<close> response object: the status code, the decoded body (\<open>r.json()\<close>), the
  \<open>shlex\<close> tokens of the \<open>content-disposition\<close> header (\<open>None\<close> when the header is
  absent) and the chunks \<open>r.iter_content(chunk_size)\<close> yields.
\<close>

record response =
  status_code :: int
  json :: dict
  content_disposition :: "string list option"
  iter_content :: "int \<Rightarrow> string list"

text \<open>
  What a call does to the outside world: how many requests it has issued and the
  durations (in seconds) of the \<open>time.sleep\<close> calls it has made, in order.
\<close>

record io =
  fetches :: nat
  sleeps :: "nat list"

definition io0 :: io where
  "io0 = \<lparr>fetches = 0, sleeps = []\<rparr>"

definition fetched :: "io \<Rightarrow> io" where
  "fetched s = s\<lparr>fetches := Suc (fetches s)\<rparr>"

definition slept :: "nat \<Rightarrow> io \<Rightarrow> io" where
  "slept d s = s\<lparr>sleeps := sleeps s @ [d]\<rparr>"

text \<open>
  The collaborators of \<open>HistoryClient\<close> that live outside the module: the Galaxy
  instance (\<open>self.gi\<close>) and the request methods of the base class \<open>Client\<close>. The
  \<open>nat\<close> argument of a request is the number of requests issued before it, so the
  server may answer successive polls differently. \<open>block_until_dataset_ready\<close> is the
  method \<open>self._block_until_dataset_ready\<close>, which the module calls but does not define.
\<close>

record client =
  base_url :: string
  make_url :: "string \<Rightarrow> bool \<Rightarrow> string"
  urljoin :: "string \<Rightarrow> string \<Rightarrow> string"
  get_list :: "bool \<Rightarrow> nat \<Rightarrow> error + dict list"
  get_json :: "string \<Rightarrow> nat \<Rightarrow> error + dict"
  put :: "string \<Rightarrow> (string \<times> bool) list \<Rightarrow> nat \<Rightarrow> error + response"
  raw_get :: "string \<Rightarrow> nat \<Rightarrow> error + response"
  make_get_request :: "string \<Rightarrow> nat \<Rightarrow> error + response"
  raise_for_status :: "response \<Rightarrow> error option"
  block_until_dataset_ready :: "string \<Rightarrow> int \<Rightarrow> io \<Rightarrow> error option \<times> io"

section \<open>Names bound in the histories module\<close>

text \<open>
  The global names of \<open>bioblend/galaxy/histories/__init__.py\<close> once its body has run:
  the imports of lines 4 to 13 and the class of line 16. A \<open>raise X(...)\<close> statement
  first loads the name \<open>X\<close>; a name that is neither a global of the module nor a
  builtin raises \<open>NameError\<close> instead.
\<close>

definition module_globals :: "string list" where
  "module_globals =
     [''bioblend'', ''Client'', ''os'', ''re'', ''shutil'', ''shlex'', ''urlparse'',
      ''urllib2'', ''time'', ''HistoryClient'']"

definition builtin_exceptions :: "string list" where
  "builtin_exceptions = [''ValueError'', ''KeyError'', ''IndexError'', ''AttributeError'']"

definition raise_named :: "string \<Rightarrow> error \<Rightarrow> error" where
  "raise_named n e =
     (if n \<in> set module_globals \<or> n \<in> set builtin_exceptions then e else NameError n)"

section \<open>String helpers\<close>

text \<open>\<open>s.rsplit('/', 1)[-1]\<close> and \<open>os.path.basename\<close>: what follows the last slash.\<close>

definition rsplit_last :: "string \<Rightarrow> string" where
  "rsplit_last s = rev (takeWhile (\<lambda>c. c \<noteq> CHR ''/'') (rev s))"

text \<open>\<open>os.path.join\<close> of two components (POSIX).\<close>

definition path_join :: "string \<Rightarrow> string \<Rightarrow> string" where
  "path_join a b =
     (if b \<noteq> [] \<and> hd b = CHR ''/'' then b
      else if a = [] \<or> last a = CHR ''/'' then a @ b
      else a @ ''/'' @ b)"

section \<open>\<open>get_histories\<close>\<close>

text \<open>\<open>next((_ for _ in histories if _['id'] == history_id), None)\<close>\<close>

fun first_with_id :: "dict list \<Rightarrow> string \<Rightarrow> error + dict option" where
  "first_with_id [] hid = Inr None"
| "first_with_id (h # hs) hid =
     (case map_of h ''id'' of
        None \<Rightarrow> Inl (KeyError ''id'')
      | Some i \<Rightarrow> if i = hid then Inr (Some h) else first_with_id hs hid)"

text \<open>\<open>[_ for _ in histories if _['name'] == name]\<close>\<close>

fun all_with_name :: "dict list \<Rightarrow> string \<Rightarrow> error + dict list" where
  "all_with_name [] n = Inr []"
| "all_with_name (h # hs) n =
     (case map_of h ''name'' of
        None \<Rightarrow> Inl (KeyError ''name'')
      | Some m \<Rightarrow>
          (case all_with_name hs n of
             Inl e \<Rightarrow> Inl e
           | Inr rest \<Rightarrow> Inr (if m = n then h # rest else rest)))"

definition get_histories ::
  "client \<Rightarrow> string option \<Rightarrow> string option \<Rightarrow> bool \<Rightarrow> io \<Rightarrow> (error + dict list) \<times> io" where
  "get_histories c history_id name deleted s =
     (if history_id \<noteq> None \<and> name \<noteq> None
      then (Inl (raise_named ''ValueError''
                  (ValueError ''Provide only one argument between name or history_id, but not both'')), s)
      else
        (case get_list c deleted (fetches s) of
           Inl e \<Rightarrow> (Inl e, fetched s)
         | Inr histories \<Rightarrow>
             (case history_id of
                Some hid \<Rightarrow>
                  (case first_with_id histories hid of
                     Inl e \<Rightarrow> (Inl e, fetched s)
                   | Inr None \<Rightarrow> (Inr [], fetched s)
                   | Inr (Some history) \<Rightarrow> (Inr [history], fetched s))
              | None \<Rightarrow>
                  (case name of
                     Some n \<Rightarrow> (all_with_name histories n, fetched s)
                   | None \<Rightarrow> (Inr histories, fetched s)))))"

section \<open>\<open>show_dataset\<close> and \<open>download_dataset\<close>\<close>

definition show_dataset :: "client \<Rightarrow> string \<Rightarrow> string \<Rightarrow> io \<Rightarrow> (error + dict) \<times> io" where
  "show_dataset c history_id dataset_id s =
     (let url = make_url c history_id True;
          url = url @ ''/'' @ dataset_id
      in (get_json c url (fetches s), fetched s))"

text \<open>
  What \<open>download_dataset\<close> hands back: the chunk generator when no \<open>file_path\<close> is
  given, otherwise nothing, after writing the named local file.
\<close>

datatype download = Chunks "string list" | Written string string

text \<open>
  The file name taken from the response header, lines 328 to 330: the token two places
  after \<open>filename\<close>. A missing header is a \<open>KeyError\<close>, which line 331 does not catch;
  \<open>ValueError\<close> (no such token) and \<open>IndexError\<close> (too few tokens) are caught there and
  are the \<open>None\<close> result here.
\<close>

fun index_of :: "string list \<Rightarrow> string \<Rightarrow> nat option" where
  "index_of [] x = None"
| "index_of (t # ts) x = (if t = x then Some 0 else map_option Suc (index_of ts x))"

definition header_filename :: "response \<Rightarrow> error + string option" where
  "header_filename r =
     (case content_disposition r of
        None \<Rightarrow> Inl (KeyError ''content-disposition'')
      | Some tokens \<Rightarrow>
          (case index_of tokens ''filename'' of
             None \<Rightarrow> Inr None
           | Some i \<Rightarrow>
               if i + 2 < length tokens then Inr (Some (rsplit_last (tokens ! (i + 2))))
               else Inr None))"

text \<open>Lines 333 to 336: the name built from the dataset when the header gave none.\<close>

definition fallback_filename :: "dict \<Rightarrow> error + string" where
  "fallback_filename dataset =
     (case map_of dataset ''name'' of
        None \<Rightarrow> Inl (KeyError ''name'')
      | Some n \<Rightarrow>
          (case map_of dataset ''file_ext'' of
             None \<Rightarrow> Inr n
           | Some ext \<Rightarrow> Inr (n @ ''.'' @ ext)))"

text \<open>Lines 341 to 346: chunks are written until the first empty one.\<close>

definition written_data :: "string list \<Rightarrow> string" where
  "written_data chunks = concat (takeWhile (\<lambda>chunk. chunk \<noteq> []) chunks)"

text \<open>Lines 306 to 346, the part of \<open>download_dataset\<close> after the state check.\<close>

definition fetch_dataset ::
  "client \<Rightarrow> dict \<Rightarrow> string option \<Rightarrow> bool \<Rightarrow> int \<Rightarrow> io \<Rightarrow> (error + download) \<times> io" where
  "fetch_dataset c dataset file_path use_default_filename chunk_size s =
     (case map_of dataset ''download_url'' of
        None \<Rightarrow>
          (Inl (raise_named ''KeyError''
                 (KeyError ''download_url not found : Impossible to download this file'')), s)
      | Some d \<Rightarrow>
          (let url = urljoin c (base_url c) d;
               url = (case map_of dataset ''file_ext'' of
                        None \<Rightarrow> url
                      | Some ext \<Rightarrow> url @ ''?to_ext='' @ ext)
           in case raw_get c url (fetches s) of
                Inl e \<Rightarrow> (Inl e, fetched s)
              | Inr r \<Rightarrow>
                  (case file_path of
                     None \<Rightarrow> (Inr (Chunks (iter_content r chunk_size)), fetched s)
                   | Some fp \<Rightarrow>
                       if use_default_filename
                       then
                         (case header_filename r of
                            Inl e \<Rightarrow> (Inl e, fetched s)
                          | Inr (Some filename) \<Rightarrow>
                              (Inr (Written (path_join fp filename)
                                      (written_data (iter_content r chunk_size))), fetched s)
                          | Inr None \<Rightarrow>
                              (case fallback_filename dataset of
                                 Inl e \<Rightarrow> (Inl e, fetched s)
                               | Inr filename \<Rightarrow>
                                   (Inr (Written (path_join fp filename)
                                           (written_data (iter_content r chunk_size))), fetched s)))
                       else
                         (Inr (Written fp (written_data (iter_content r chunk_size))), fetched s))))"

text \<open>
  Lines 299 to 304. The state is read from the dataset that \<open>show_dataset\<close> returned;
  any state other than \<open>ok\<close> reaches the \<open>raise DatasetStateException(...)\<close> of line 304.
  The argument \<open>hda_ldda\<close> only fills the dictionary \<open>params\<close> of lines 306 to 308,
  which no later line reads, so it is left out of \<open>download_dataset\<close>.
\<close>

definition check_state :: "string \<Rightarrow> dict \<Rightarrow> error option" where
  "check_state dataset_id dataset =
     (case map_of dataset ''state'' of
        None \<Rightarrow> Some (KeyError ''state'')
      | Some st \<Rightarrow>
          if \<not> st = ''ok''
          then Some (raise_named ''DatasetStateException''
                 (DatasetStateException
                    (''Dataset not ready. Dataset id: '' @ dataset_id @ '', current state: '' @ st)))
          else None)"

definition download_dataset ::
  "client \<Rightarrow> string \<Rightarrow> string \<Rightarrow> string option \<Rightarrow> bool \<Rightarrow> bool \<Rightarrow> int \<Rightarrow> int \<Rightarrow> io
     \<Rightarrow> (error + download) \<times> io" where
  "download_dataset c history_id dataset_id file_path use_default_filename
       wait_for_completion maxwait chunk_size s =
     (case (if wait_for_completion then block_until_dataset_ready c dataset_id maxwait s
            else (None, s)) of
        (Some e, s1) \<Rightarrow> (Inl e, s1)
      | (None, s1) \<Rightarrow>
          (case show_dataset c history_id dataset_id s1 of
             (Inl e, s2) \<Rightarrow> (Inl e, s2)
           | (Inr dataset, s2) \<Rightarrow>
               (case check_state dataset_id dataset of
                  Some e \<Rightarrow> (Inl e, s2)
                | None \<Rightarrow> fetch_dataset c dataset file_path use_default_filename chunk_size s2)))"

section \<open>\<open>export_history\<close> and \<open>download_history\<close>\<close>

text \<open>
  The loop of lines 438 to 442. It has no bound of its own: when the server never
  answers 200 and \<open>wait\<close> is set it runs forever, which is the value \<open>None\<close>.
\<close>

partial_function (option) export_loop ::
  "(nat \<Rightarrow> error + response) \<Rightarrow> bool \<Rightarrow> io \<Rightarrow> ((error + response) \<times> io) option" where
  "export_loop request wait s =
     (case request (fetches s) of
        Inl e \<Rightarrow> Some (Inl e, fetched s)
      | Inr r \<Rightarrow>
          if \<not> wait \<or> status_code r = 200 then Some (Inr r, fetched s)
          else export_loop request wait (slept 1 (fetched s)))"

text \<open>
  Lines 443 to 447, on a body that \<open>r.json()\<close> has decoded to a dictionary with
  string values. A body that is not JSON makes \<open>r.json()\<close> raise on line 443, and a
  body that is not such a dictionary makes line 445 raise; neither is a value of
  \<open>response\<close>, so nothing below speaks about those answers.
\<close>

definition jeha_id_of :: "dict \<Rightarrow> error + string" where
  "jeha_id_of contents =
     (if contents \<noteq> []
      then (case map_of contents ''download_url'' of
              None \<Rightarrow> Inl (KeyError ''download_url'')
            | Some u \<Rightarrow> Inr (rsplit_last u))
      else Inr '''')"

definition export_history ::
  "client \<Rightarrow> string \<Rightarrow> bool \<Rightarrow> bool \<Rightarrow> bool \<Rightarrow> bool \<Rightarrow> io \<Rightarrow> ((error + string) \<times> io) option" where
  "export_history c history_id gzip include_hidden include_deleted wait s =
     (let params = [(''gzip'', gzip), (''include_hidden'', include_hidden),
                    (''include_deleted'', include_deleted)];
          url = make_url c history_id False @ ''/exports''
      in case export_loop (put c url params) wait s of
           None \<Rightarrow> None
         | Some (Inl e, s') \<Rightarrow> Some (Inl e, s')
         | Some (Inr r, s') \<Rightarrow> Some (jeha_id_of (json r), s'))"

text \<open>
  \<open>download_history\<close>, lines 469 to 475: one request, \<open>raise_for_status\<close>, then every
  chunk is written to \<open>outf\<close> (the third component is what has been written to it).
\<close>

definition download_history ::
  "client \<Rightarrow> string \<Rightarrow> string \<Rightarrow> string \<Rightarrow> int \<Rightarrow> io \<Rightarrow> error option \<times> io \<times> string" where
  "download_history c history_id jeha_id outf chunk_size s =
     (let url = make_url c history_id False @ ''/exports/'' @ jeha_id
      in case make_get_request c url (fetches s) of
           Inl e \<Rightarrow> (Some e, fetched s, outf)
         | Inr r \<Rightarrow>
             (case raise_for_status c r of
                Some e \<Rightarrow> (Some e, fetched s, outf)
              | None \<Rightarrow> (None, fetched s, outf @ concat (iter_content r chunk_size))))"

section \<open>\<open>ToolShedClient.repository_revisions\<close>\<close>







section \<open>Servers for running the client on concrete inputs\<close>

definition resp :: "int \<Rightarrow> dict \<Rightarrow> response" where
  "resp code body =
     \<lparr>status_code = code, json = body, content_disposition = None, iter_content = (\<lambda>_. [])\<rparr>"

text \<open>
  A Galaxy instance that answers the \<open>n\<close>-th request with \<open>script n\<close>, whatever the
  request is, and every dataset query with \<open>dataset\<close>.
\<close>

definition scripted :: "(nat \<Rightarrow> error + response) \<Rightarrow> dict \<Rightarrow> client" where
  "scripted script dataset =
     \<lparr>base_url = ''http://galaxy/'',
      make_url = (\<lambda>i contents.
         ''http://galaxy/api/histories/'' @ i @ (if contents then ''/contents'' else [])),
      urljoin = (\<lambda>a b. a @ b),
      get_list = (\<lambda>_ _. Inr [dataset]),
      get_json = (\<lambda>_ _. Inr dataset),
      put = (\<lambda>_ _. script),
      raw_get = (\<lambda>_. script),
      make_get_request = (\<lambda>_. script),
      raise_for_status = (\<lambda>r. if 400 \<le> status_code r \<and> status_code r < 600
                                then Some (HTTPError (status_code r)) else None),
      block_until_dataset_ready = (\<lambda>_ _ s. (None, s))\<rparr>"

definition ready :: response where
  "ready = resp 200 [(''download_url'', ''/api/histories/h1/exports/jeha1'')]"

definition always_pending :: "nat \<Rightarrow> error + response" where
  "always_pending n = Inr (resp 202 [])"

definition ready_at :: "nat \<Rightarrow> nat \<Rightarrow> error + response" where
  "ready_at k n = (if Suc n < k then Inr (resp 202 []) else Inr ready)"

definition broken_at :: "nat \<Rightarrow> nat \<Rightarrow> error + response" where
  "broken_at k n =
     (if Suc n < k then Inr (resp 202 []) else Inl (TransportError ''connection reset''))"


section \<open>The state of the export loop after a number of polls\<close>

text \<open>
  \<open>after_polls k s\<close> is the state after \<open>k\<close> further rounds of the loop body that ended
  in \<open>time.sleep(1)\<close>: \<open>k\<close> more requests and \<open>k\<close> more sleeps of one second.
\<close>

definition after_polls :: "nat \<Rightarrow> io \<Rightarrow> io" where
  "after_polls k s = \<lparr>fetches = fetches s + k, sleeps = sleeps s @ replicate k 1\<rparr>"

definition export_url :: "client \<Rightarrow> string \<Rightarrow> string" where
  "export_url c history_id = make_url c history_id False @ ''/exports''"

definition export_params :: "bool \<Rightarrow> bool \<Rightarrow> bool \<Rightarrow> (string \<times> bool) list" where
  "export_params gzip include_hidden include_deleted =
     [(''gzip'', gzip), (''include_hidden'', include_hidden),
      (''include_deleted'', include_deleted)]"

text \<open>The request \<open>export_history\<close> repeats: \<open>Client._put(self, {}, url=url, params=params)\<close>.\<close>

definition export_request ::
  "client \<Rightarrow> string \<Rightarrow> bool \<Rightarrow> bool \<Rightarrow> bool \<Rightarrow> nat \<Rightarrow> error + response" where
  "export_request c history_id gzip include_hidden include_deleted =
     put c (export_url c history_id) (export_params gzip include_hidden include_deleted)"

text \<open>
  What an outcome of the loop looks like: it follows \<open>k\<close> polls that found the export
  pending, the answer to the next request decided it, and no sleep follows that request.
\<close>

definition outcome_ok ::
  "(nat \<Rightarrow> error + response) \<Rightarrow> bool \<Rightarrow> io \<Rightarrow> (error + response) \<times> io \<Rightarrow> bool" where
  "outcome_ok request wait s y =
     (\<exists>k. snd y = fetched (after_polls k s) \<and> request (fetches s + k) = fst y \<and>
          (k = 0 \<or> wait) \<and>
          (\<forall>i<k. \<exists>r. request (fetches s + i) = Inr r \<and> status_code r \<noteq> 200) \<and>
          (\<forall>r. fst y = Inr r \<longrightarrow> \<not> wait \<or> status_code r = 200))"


section \<open>Facts about the export loop\<close>

lemma export_history_unfold:
  "export_history c h g ih idl wait s =
     (case export_loop (export_request c h g ih idl) wait s of
        None \<Rightarrow> None
      | Some (Inl e, s') \<Rightarrow> Some (Inl e, s')
      | Some (Inr r, s') \<Rightarrow> Some (jeha_id_of (json r), s'))"
  by (simp add: export_history_def export_request_def export_url_def export_params_def)

lemma export_loop_raise:
  "request (fetches s) = Inl e \<Longrightarrow> export_loop request wait s = Some (Inl e, fetched s)"
  by (subst export_loop.simps) simp

lemma export_loop_ready:
  "request (fetches s) = Inr r \<Longrightarrow> \<not> wait \<or> status_code r = 200 \<Longrightarrow>
     export_loop request wait s = Some (Inr r, fetched s)"
  by (subst export_loop.simps) auto

lemma export_loop_retry:
  "request (fetches s) = Inr r \<Longrightarrow> wait \<Longrightarrow> status_code r \<noteq> 200 \<Longrightarrow>
     export_loop request wait s = export_loop request wait (slept 1 (fetched s))"
  by (subst export_loop.simps) simp

lemma after_polls_0: "after_polls 0 s = s"
  by (simp add: after_polls_def)

lemma after_polls_Suc: "after_polls (Suc k) s = after_polls k (slept 1 (fetched s))"
  by (simp add: after_polls_def slept_def fetched_def replicate_append_same)

lemma after_polls_Suc': "after_polls (Suc k) s = slept 1 (fetched (after_polls k s))"
  by (simp add: after_polls_def slept_def fetched_def replicate_append_same)

lemma export_loop_pending:
  "wait \<Longrightarrow> \<forall>i<k. \<exists>r. request (fetches s + i) = Inr r \<and> status_code r \<noteq> 200 \<Longrightarrow>
     export_loop request wait s = export_loop request wait (after_polls k s)"
proof (induction k)
  case 0
  show ?case by (simp add: after_polls_0)
next
  case (Suc k)
  from Suc.prems(2) have "\<forall>i<k. \<exists>r. request (fetches s + i) = Inr r \<and> status_code r \<noteq> 200"
    by auto
  with Suc have eq: "export_loop request wait s = export_loop request wait (after_polls k s)"
    by blast
  from Suc.prems(2) obtain r where "request (fetches s + k) = Inr r" "status_code r \<noteq> 200"
    by blast
  then have "request (fetches (after_polls k s)) = Inr r" "status_code r \<noteq> 200"
    by (simp_all add: after_polls_def)
  with Suc.prems(1) export_loop_retry [of request "after_polls k s" r wait] eq
  show ?case by (simp add: after_polls_Suc')
qed


lemma fetches_slept_fetched: "fetches (slept d (fetched s)) = Suc (fetches s)"
  by (simp add: slept_def fetched_def)

lemma outcome_ok_step:
  assumes r: "request (fetches s) = Inr r" "status_code r \<noteq> 200" and w: wait
    and ok: "outcome_ok request wait (slept 1 (fetched s)) y"
  shows "outcome_ok request wait s y"
proof -
  from ok obtain k where k: "snd y = fetched (after_polls k (slept 1 (fetched s)))"
      "request (Suc (fetches s) + k) = fst y"
      "\<forall>i<k. \<exists>r. request (Suc (fetches s) + i) = Inr r \<and> status_code r \<noteq> 200"
      "\<forall>r. fst y = Inr r \<longrightarrow> \<not> wait \<or> status_code r = 200"
    unfolding outcome_ok_def fetches_slept_fetched by blast
  have pend: "\<forall>i<Suc k. \<exists>r. request (fetches s + i) = Inr r \<and> status_code r \<noteq> 200"
  proof (intro allI impI)
    fix i assume "i < Suc k"
    show "\<exists>r. request (fetches s + i) = Inr r \<and> status_code r \<noteq> 200"
    proof (cases i)
      case 0 with r show ?thesis by simp
    next
      case (Suc j)
      with \<open>i < Suc k\<close> have "j < k" by simp
      with k(3) Suc show ?thesis by simp
    qed
  qed
  show ?thesis
    unfolding outcome_ok_def
    by (rule exI [of _ "Suc k"]) (use k pend w in \<open>simp add: after_polls_Suc\<close>)
qed

lemma export_loop_outcome:
  assumes "export_loop request wait s = Some y"
  shows "outcome_ok request wait s y"
proof (rule export_loop.raw_induct [where P = outcome_ok, OF _ assms])
  fix loop :: "(nat \<Rightarrow> error + response) \<Rightarrow> bool \<Rightarrow> io \<Rightarrow> ((error + response) \<times> io) option"
    and request wait s y
  assume IH: "\<And>request wait s y. loop request wait s = Some y \<Longrightarrow> outcome_ok request wait s y"
    and body: "(case request (fetches s) of
        Inl e \<Rightarrow> Some (Inl e, fetched s)
      | Inr r \<Rightarrow>
          if \<not> wait \<or> status_code r = 200 then Some (Inr r, fetched s)
          else loop request wait (slept 1 (fetched s))) = Some y"
  show "outcome_ok request wait s y"
  proof (cases "request (fetches s)")
    case (Inl e)
    with body have "y = (Inl e, fetched s)" by simp
    with Inl show ?thesis
      unfolding outcome_ok_def by (intro exI [of _ 0]) (simp add: after_polls_0)
  next
    case (Inr r)
    show ?thesis
    proof (cases "\<not> wait \<or> status_code r = 200")
      case True
      with body Inr have "y = (Inr r, fetched s)" by simp
      with Inr True show ?thesis
        unfolding outcome_ok_def by (intro exI [of _ 0]) (simp add: after_polls_0)
    next
      case False
      with body Inr have "loop request wait (slept 1 (fetched s)) = Some y" by simp
      from IH [OF this] Inr False show ?thesis
        by (intro outcome_ok_step [of request s r]) auto
    qed
  qed
qed


section \<open>Facts about the query parameters\<close>





section \<open>\<open>get_histories\<close> rejects two selectors\<close>

text \<open>
  C9. When both \<open>history_id\<close> and \<open>name\<close> are given (neither is \<open>None\<close>),
  \<open>get_histories\<close> raises \<open>ValueError\<close> and the record of effects comes back as it
  went in: no request has been issued, so no list of histories has been fetched,
  whatever the server would have answered.
\<close>

theorem get_histories_both_arguments_raise:
  "get_histories c (Some history_id) (Some name) deleted s =
     (Inl (ValueError ''Provide only one argument between name or history_id, but not both''), s)"
  by (simp add: get_histories_def raise_named_def builtin_exceptions_def)

theorem get_histories_both_arguments_raise_witness:
  "get_histories (scripted always_pending [(''id'', ''h1''), (''name'', ''n1'')])
      (Some ''h1'') (Some ''n1'') False io0 =
     (Inl (ValueError ''Provide only one argument between name or history_id, but not both''), io0)
   \<and> fetches io0 = 0"
  using get_histories_both_arguments_raise
    [of "scripted always_pending [(''id'', ''h1''), (''name'', ''n1'')]" "''h1''" "''n1''" False io0]
  by (simp add: io0_def)

section \<open>More facts about the export loop\<close>


lemma fetches_after_polls: "fetches (after_polls k s) = fetches s + k"
  by (simp add: after_polls_def)

lemma fetched_after_polls:
  "fetched (after_polls k s) = \<lparr>fetches = fetches s + Suc k, sleeps = sleeps s @ replicate k 1\<rparr>"
  by (simp add: after_polls_def fetched_def)

lemma export_loop_decided:
  assumes "wait \<or> k = 0"
    and "\<forall>i<k. \<exists>r. request (fetches s + i) = Inr r \<and> status_code r \<noteq> 200"
    and "request (fetches s + k) = res"
    and "\<forall>r. res = Inr r \<longrightarrow> \<not> wait \<or> status_code r = 200"
  shows "export_loop request wait s = Some (res, fetched (after_polls k s))"
proof -
  have eq: "export_loop request wait s = export_loop request wait (after_polls k s)"
  proof (cases k)
    case 0 then show ?thesis by (simp add: after_polls_0)
  next
    case (Suc j)
    with assms(1) have wait by simp
    from export_loop_pending [OF this assms(2)] show ?thesis .
  qed
  have at: "request (fetches (after_polls k s)) = res"
    using assms(3) by (simp add: fetches_after_polls)
  show ?thesis
  proof (cases res)
    case (Inl e)
    with at export_loop_raise [of request "after_polls k s" e wait] eq show ?thesis by simp
  next
    case (Inr r)
    with at assms(4) export_loop_ready [of request "after_polls k s" r wait] eq
    show ?thesis by simp
  qed
qed

lemma export_request_scripted: "export_request (scripted script d) h g ih idl = script"
  by (simp add: export_request_def scripted_def)

lemma jeha_id_of_ready: "jeha_id_of (json ready) = Inr ''jeha1''"
  by (simp add: jeha_id_of_def ready_def resp_def rsplit_last_def)

section \<open>The export is returned by the request that finds it ready\<close>

text \<open>
  C2. \<open>export_history\<close> with \<open>wait\<close> set polls with a fixed interval of one second, and
  its success predicate is a status code of 200. When the \<open>k\<close>-th request of the call is
  the first one answered with 200 (the \<open>k - 1\<close> requests before it were answered, with
  another code), the loop ends with that \<open>k\<close>-th response after exactly \<open>k\<close> requests and
  exactly \<open>k - 1\<close> sleeps of one second each, and \<open>export_history\<close> returns the
  identifier read from that response.
\<close>

theorem export_history_returns_kth_response:
  assumes "1 \<le> k"
    and "\<forall>j. 1 \<le> j \<and> j < k \<longrightarrow>
           (\<exists>r'. export_request c h g ih idl (fetches s + (j - 1)) = Inr r' \<and> status_code r' \<noteq> 200)"
    and "export_request c h g ih idl (fetches s + (k - 1)) = Inr r"
    and "status_code r = 200"
  shows "export_loop (export_request c h g ih idl) True s =
           Some (Inr r, \<lparr>fetches = fetches s + k, sleeps = sleeps s @ replicate (k - 1) 1\<rparr>)
       \<and> export_history c h g ih idl True s =
           Some (jeha_id_of (json r),
                 \<lparr>fetches = fetches s + k, sleeps = sleeps s @ replicate (k - 1) 1\<rparr>)"
proof -
  have pend: "\<forall>i<k - 1. \<exists>r'. export_request c h g ih idl (fetches s + i) = Inr r' \<and>
                status_code r' \<noteq> 200"
  proof (intro allI impI)
    fix i assume "i < k - 1"
    then have "1 \<le> Suc i \<and> Suc i < k" by simp
    with assms(2) show "\<exists>r'. export_request c h g ih idl (fetches s + i) = Inr r' \<and>
        status_code r' \<noteq> 200"
      by (metis diff_Suc_1)
  qed
  have "export_loop (export_request c h g ih idl) True s =
          Some (Inr r, fetched (after_polls (k - 1) s))"
    by (rule export_loop_decided) (use pend assms in auto)
  with assms(1) have loop: "export_loop (export_request c h g ih idl) True s =
      Some (Inr r, \<lparr>fetches = fetches s + k, sleeps = sleeps s @ replicate (k - 1) 1\<rparr>)"
    by (simp add: fetched_after_polls)
  then show ?thesis by (simp add: export_history_unfold)
qed

theorem export_history_returns_kth_response_witness:
  "export_history (scripted (ready_at 3) []) ''h1'' True False False True io0 =
     Some (Inr ''jeha1'', \<lparr>fetches = 3, sleeps = [1, 1]\<rparr>)"
proof -
  have a: "(1::nat) \<le> 3" by simp
  have b: "\<forall>j. 1 \<le> j \<and> j < (3::nat) \<longrightarrow>
      (\<exists>r'. export_request (scripted (ready_at 3) []) ''h1'' True False False
               (fetches io0 + (j - 1)) = Inr r' \<and> status_code r' \<noteq> 200)"
    by (auto simp: export_request_scripted ready_at_def resp_def io0_def)
  have c: "export_request (scripted (ready_at 3) []) ''h1'' True False False
             (fetches io0 + (3 - 1)) = Inr ready"
    by (simp add: export_request_scripted ready_at_def io0_def)
  have d: "status_code ready = 200" by (simp add: ready_def resp_def)
  from export_history_returns_kth_response [OF a b c d]
  show ?thesis by (simp add: jeha_id_of_ready io0_def numeral_3_eq_3)
qed

section \<open>Outcomes of the export loop\<close>

lemma export_loop_outcomeD:
  assumes "export_loop request wait s = Some (res, s')"
  obtains k where "s' = fetched (after_polls k s)" and "request (fetches s + k) = res"
    and "k = 0 \<or> wait"
    and "\<forall>i<k. \<exists>r. request (fetches s + i) = Inr r \<and> status_code r \<noteq> 200"
    and "\<forall>r. res = Inr r \<longrightarrow> \<not> wait \<or> status_code r = 200"
  using export_loop_outcome [OF assms] unfolding outcome_ok_def by auto

lemma export_loop_retry_not_done:
  assumes "request (fetches s) = Inr r" and "status_code r \<noteq> 200" and wait
  shows "export_loop request wait s \<noteq> Some (res, fetched s)"
proof
  assume "export_loop request wait s = Some (res, fetched s)"
  with export_loop_retry [of request s r wait] assms
  have "export_loop request wait (slept 1 (fetched s)) = Some (res, fetched s)" by simp
  then obtain k where "fetched s = fetched (after_polls k (slept 1 (fetched s)))"
    by (rule export_loop_outcomeD)
  then have "sleeps (fetched s) = sleeps (fetched (after_polls k (slept 1 (fetched s))))"
    by simp
  then show False by (simp add: fetched_def after_polls_def slept_def)
qed

lemma export_loop_first_fetch_decides:
  "(\<exists>res. export_loop request wait s = Some (res, fetched s)) \<longleftrightarrow>
     \<not> (wait \<and> (\<exists>r. request (fetches s) = Inr r \<and> status_code r \<noteq> 200))"
proof (cases "wait \<and> (\<exists>r. request (fetches s) = Inr r \<and> status_code r \<noteq> 200)")
  case True
  then show ?thesis using export_loop_retry_not_done [of request s _ wait] by blast
next
  case False
  have "export_loop request wait s = Some (request (fetches s), fetched s)"
  proof (cases "request (fetches s)")
    case (Inl e) then show ?thesis by (simp add: export_loop_raise)
  next
    case (Inr r)
    with False have "\<not> wait \<or> status_code r = 200" by auto
    with Inr show ?thesis by (simp add: export_loop_ready)
  qed
  with False show ?thesis by blast
qed

lemma export_history_outcome:
  assumes "export_history c h g ih idl wait s = Some (res, s')"
  obtains lr where "export_loop (export_request c h g ih idl) wait s = Some (lr, s')"
    and "res = (case lr of Inl e \<Rightarrow> Inl e | Inr r \<Rightarrow> jeha_id_of (json r))"
  using assms unfolding export_history_unfold
  by (auto split: option.splits sum.splits prod.splits)

lemma rsplit_last_append:
  "CHR ''/'' \<notin> set x \<Longrightarrow> rsplit_last (p @ ''/'' @ x) = x"
proof -
  assume a: "CHR ''/'' \<notin> set x"
  have "takeWhile (\<lambda>c. c \<noteq> CHR ''/'') (rev x @ CHR ''/'' # rev p) = rev x"
    using a by (subst takeWhile_append2) auto
  then show ?thesis by (simp add: rsplit_last_def)
qed

lemma fetch_dataset_fetches:
  "fetches s \<le> fetches (snd (fetch_dataset c ds fp u cs s))"
  by (auto simp: fetch_dataset_def Let_def fetched_def split: option.splits sum.splits)

lemma download_dataset_fetches:
  "fetches s < fetches (snd (download_dataset c h d fp u False maxwait cs s))"
proof -
  have "fetches (fetched s) \<le> fetches (snd (fetch_dataset c ds fp u cs (fetched s)))" for ds
    by (rule fetch_dataset_fetches)
  then have *: "fetches s < fetches (snd (fetch_dataset c ds fp u cs (fetched s)))" for ds
    by (simp add: fetched_def less_eq_Suc_le)
  show ?thesis
    using * by (auto simp: download_dataset_def show_dataset_def Let_def fetched_def
        split: option.splits sum.splits prod.splits)
qed

section \<open>No wait budget in \<open>export_history\<close>\<close>




section \<open>The status code decides readiness\<close>

text \<open>
  C5. In \<open>export_history\<close> with \<open>wait\<close> set, a response with status 200 ends the wait
  and the identifier is computed from its body. A response with any other status, whatever
  its body says, is followed by a sleep of one second and the next request: the call
  continues exactly as a call started in the state after that request and that sleep, so
  nothing is raised for it. The identifier of an empty body is the empty string; that of a
  body with a \<open>download_url\<close> is what follows the last slash of that reference.
\<close>

theorem export_history_status_code_decides:
  "(export_request c h g ih idl (fetches s) = Inr r \<and> status_code r = 200 \<longrightarrow>
      export_history c h g ih idl True s = Some (jeha_id_of (json r), fetched s))
   \<and> (export_request c h g ih idl (fetches s') = Inr r' \<and> status_code r' \<noteq> 200 \<longrightarrow>
      export_history c h g ih idl True s' =
        export_history c h g ih idl True (slept 1 (fetched s')))
   \<and> jeha_id_of [] = Inr []
   \<and> (contents \<noteq> [] \<and> map_of contents ''download_url'' = Some u \<longrightarrow>
        jeha_id_of contents = Inr (rsplit_last u))
   \<and> (CHR ''/'' \<notin> set x \<longrightarrow> rsplit_last (p @ ''/'' @ x) = x)"
proof (intro conjI impI)
  assume "export_request c h g ih idl (fetches s) = Inr r \<and> status_code r = 200"
  then show "export_history c h g ih idl True s = Some (jeha_id_of (json r), fetched s)"
    using export_loop_ready [of "export_request c h g ih idl" s r True]
    by (simp add: export_history_unfold)
next
  assume "export_request c h g ih idl (fetches s') = Inr r' \<and> status_code r' \<noteq> 200"
  then show "export_history c h g ih idl True s' =
      export_history c h g ih idl True (slept 1 (fetched s'))"
    using export_loop_retry [of "export_request c h g ih idl" s' r' True]
    by (simp add: export_history_unfold)
next
  show "jeha_id_of [] = Inr []" by (simp add: jeha_id_of_def)
next
  assume "contents \<noteq> [] \<and> map_of contents ''download_url'' = Some u"
  then show "jeha_id_of contents = Inr (rsplit_last u)" by (simp add: jeha_id_of_def)
next
  assume "CHR ''/'' \<notin> set x"
  then show "rsplit_last (p @ ''/'' @ x) = x" by (rule rsplit_last_append)
qed

theorem export_history_status_code_decides_witness:
  "export_history (scripted (ready_at 2) []) ''h1'' True False False True io0 =
      export_history (scripted (ready_at 2) []) ''h1'' True False False True
        (slept 1 (fetched io0))
   \<and> export_history (scripted (ready_at 2) []) ''h1'' True False False True
        (slept 1 (fetched io0)) = Some (Inr ''jeha1'', fetched (slept 1 (fetched io0)))
   \<and> rsplit_last (''/api/histories/h1/exports'' @ ''/'' @ ''jeha1'') = ''jeha1''"
proof -
  have a: "export_request (scripted (ready_at 2) []) ''h1'' True False False
             (fetches (slept 1 (fetched io0))) = Inr ready \<and> status_code ready = 200"
    by (simp add: export_request_scripted ready_at_def ready_def resp_def io0_def
        fetches_slept_fetched)
  have b: "export_request (scripted (ready_at 2) []) ''h1'' True False False (fetches io0) =
             Inr (resp 202 []) \<and> status_code (resp 202 []) \<noteq> 200"
    by (simp add: export_request_scripted ready_at_def resp_def io0_def)
  have c: "json ready \<noteq> [] \<and>
           map_of (json ready) ''download_url'' = Some ''/api/histories/h1/exports/jeha1''"
    by (simp add: ready_def resp_def)
  have d: "CHR ''/'' \<notin> set ''jeha1''" by simp
  from export_history_status_code_decides
    [of "scripted (ready_at 2) []" "''h1''" True False False "slept 1 (fetched io0)" ready
        io0 "resp 202 []" "json ready" "''/api/histories/h1/exports/jeha1''" "''jeha1''"
        "''/api/histories/h1/exports''"]
    a b c d
  show ?thesis by (simp add: jeha_id_of_ready)
qed

section \<open>Errors of the request are not retried\<close>

text \<open>
  C8. When the request of \<open>export_history\<close> itself raises, after \<open>k\<close> requests that found
  the export pending, the call ends with that error right after the failing request:
  \<open>k + 1\<close> requests, \<open>k\<close> sleeps, none after the failure. The loop ends at its first
  request, without sleeping, in every case but one: \<open>wait\<close> is set and the request was
  answered with a status other than 200. A request of \<open>download_history\<close> that raises ends
  that call with the error too, after one request and with nothing written.
\<close>

theorem fetch_error_propagates:
  "((wait \<or> k = 0)
      \<and> (\<forall>i<k. \<exists>r. export_request c h g ih idl (fetches s + i) = Inr r \<and> status_code r \<noteq> 200)
      \<and> export_request c h g ih idl (fetches s + k) = Inl e
    \<longrightarrow> export_history c h g ih idl wait s =
          Some (Inl e, \<lparr>fetches = fetches s + Suc k, sleeps = sleeps s @ replicate k 1\<rparr>))
   \<and> ((\<exists>res. export_loop (export_request c h g ih idl) wait s = Some (res, fetched s)) \<longleftrightarrow>
        \<not> (wait \<and> (\<exists>r. export_request c h g ih idl (fetches s) = Inr r \<and> status_code r \<noteq> 200)))
   \<and> (make_get_request c (make_url c h False @ ''/exports/'' @ jeha_id) (fetches s) = Inl e
    \<longrightarrow> download_history c h jeha_id outf chunk_size s = (Some e, fetched s, outf))"
proof (intro conjI impI)
  assume a: "(wait \<or> k = 0)
      \<and> (\<forall>i<k. \<exists>r. export_request c h g ih idl (fetches s + i) = Inr r \<and> status_code r \<noteq> 200)
      \<and> export_request c h g ih idl (fetches s + k) = Inl e"
  have "export_loop (export_request c h g ih idl) wait s = Some (Inl e, fetched (after_polls k s))"
    by (rule export_loop_decided) (use a in auto)
  then show "export_history c h g ih idl wait s =
      Some (Inl e, \<lparr>fetches = fetches s + Suc k, sleeps = sleeps s @ replicate k 1\<rparr>)"
    by (simp add: export_history_unfold fetched_after_polls)
next
  show "(\<exists>res. export_loop (export_request c h g ih idl) wait s = Some (res, fetched s)) \<longleftrightarrow>
        \<not> (wait \<and> (\<exists>r. export_request c h g ih idl (fetches s) = Inr r \<and> status_code r \<noteq> 200))"
    by (rule export_loop_first_fetch_decides)
next
  assume "make_get_request c (make_url c h False @ ''/exports/'' @ jeha_id) (fetches s) = Inl e"
  then show "download_history c h jeha_id outf chunk_size s = (Some e, fetched s, outf)"
    by (simp add: download_history_def)
qed

theorem fetch_error_propagates_witness:
  "export_history (scripted (broken_at 3) []) ''h1'' True False False True io0 =
     Some (Inl (TransportError ''connection reset''), \<lparr>fetches = 3, sleeps = [1, 1]\<rparr>)
   \<and> download_history (scripted (broken_at 1) []) ''h1'' ''jeha1'' ''abc'' 1024 \<lparr>fetches = 2, sleeps = []\<rparr> =
       (Some (TransportError ''connection reset''), \<lparr>fetches = 3, sleeps = []\<rparr>, ''abc'')"
proof -
  have a: "(True \<or> (2::nat) = 0)
      \<and> (\<forall>i<2. \<exists>r. export_request (scripted (broken_at 3) []) ''h1'' True False False
                      (fetches io0 + i) = Inr r \<and> status_code r \<noteq> 200)
      \<and> export_request (scripted (broken_at 3) []) ''h1'' True False False (fetches io0 + 2) =
          Inl (TransportError ''connection reset'')"
    by (auto simp: export_request_scripted broken_at_def resp_def io0_def)
  have b: "make_get_request (scripted (broken_at 1) [])
             (make_url (scripted (broken_at 1) []) ''h1'' False @ ''/exports/'' @ ''jeha1'')
             (fetches \<lparr>fetches = 2, sleeps = []\<rparr>) = Inl (TransportError ''connection reset'')"
    by (simp add: scripted_def broken_at_def)
  from fetch_error_propagates [of True 2 "scripted (broken_at 3) []" "''h1''" True False False io0
      "TransportError ''connection reset''"] a
  have 1: "export_history (scripted (broken_at 3) []) ''h1'' True False False True io0 =
     Some (Inl (TransportError ''connection reset''), \<lparr>fetches = 3, sleeps = [1, 1]\<rparr>)"
    by (simp add: io0_def numeral_2_eq_2)
  from fetch_error_propagates [of _ _ "scripted (broken_at 1) []" "''h1''" _ _ _
      "\<lparr>fetches = 2, sleeps = []\<rparr>" "TransportError ''connection reset''" "''jeha1''" "''abc''" 1024] b
  have 2: "download_history (scripted (broken_at 1) []) ''h1'' ''jeha1'' ''abc'' 1024
             \<lparr>fetches = 2, sleeps = []\<rparr> =
       (Some (TransportError ''connection reset''), \<lparr>fetches = 3, sleeps = []\<rparr>, ''abc'')"
    by (simp add: fetched_def)
  from 1 2 show ?thesis by simp
qed

section \<open>The first request is unconditional\<close>

text \<open>
  C7. The loop of \<open>export_history\<close> issues its request before it tests anything, and no
  wait budget is consulted anywhere: every outcome of the call comes after at least one
  request, and the call has slept fewer times than it has issued requests. Without
  \<open>wait\<close> the call always ends after exactly one request. \<open>download_dataset\<close> without
  \<open>wait_for_completion\<close> issues at least one request too, for every value of \<open>maxwait\<close>,
  zero and negative ones included.
\<close>

theorem export_history_polls_at_least_once:
  "(export_history c h g ih idl wait s = Some (res, s') \<longrightarrow>
      fetches s < fetches s' \<and>
      length (sleeps s') - length (sleeps s) < fetches s' - fetches s)
   \<and> (\<exists>res0. export_history c h g ih idl False s = Some (res0, fetched s))
   \<and> fetches s < fetches (snd (download_dataset c h d fp u False maxwait cs s))"
proof (intro conjI impI)
  assume "export_history c h g ih idl wait s = Some (res, s')"
  then obtain lr where "export_loop (export_request c h g ih idl) wait s = Some (lr, s')"
    by (rule export_history_outcome)
  then obtain k where "s' = fetched (after_polls k s)" by (rule export_loop_outcomeD)
  then have s': "fetches s' = fetches s + Suc k" "sleeps s' = sleeps s @ replicate k 1"
    by (simp_all add: fetched_after_polls)
  from s' show "fetches s < fetches s'" by simp
  from s' show "length (sleeps s') - length (sleeps s) < fetches s' - fetches s" by simp
next
  have "export_loop (export_request c h g ih idl) False s =
          Some (export_request c h g ih idl (fetches s), fetched s)"
    using export_loop_decided [of False 0 "export_request c h g ih idl" s]
    by (simp add: after_polls_0)
  then show "\<exists>res0. export_history c h g ih idl False s = Some (res0, fetched s)"
    by (auto simp: export_history_unfold split: sum.splits)
next
  show "fetches s < fetches (snd (download_dataset c h d fp u False maxwait cs s))"
    by (rule download_dataset_fetches)
qed

theorem export_history_polls_at_least_once_witness:
  "export_history (scripted (ready_at 2) []) ''h1'' True False False True io0 =
      Some (Inr ''jeha1'', \<lparr>fetches = 2, sleeps = [1]\<rparr>)
   \<and> fetches io0 < fetches \<lparr>fetches = 2, sleeps = [1]\<rparr>
   \<and> length (sleeps \<lparr>fetches = 2, sleeps = [1]\<rparr>) - length (sleeps io0)
        < fetches \<lparr>fetches = 2, sleeps = [1]\<rparr> - fetches io0
   \<and> 0 < fetches (snd (download_dataset (scripted always_pending [(''state'', ''ok'')])
                          ''h1'' ''d1'' None True False (- 5) 1024 io0))"
proof -
  have "export_loop (ready_at 2) True io0 = Some (Inr ready, fetched (after_polls 1 io0))"
    by (rule export_loop_decided) (auto simp: ready_at_def resp_def ready_def io0_def)
  then have run: "export_history (scripted (ready_at 2) []) ''h1'' True False False True io0 =
      Some (Inr ''jeha1'', \<lparr>fetches = 2, sleeps = [1]\<rparr>)"
    by (simp add: export_history_unfold export_request_scripted jeha_id_of_ready
        fetched_after_polls io0_def)
  from export_history_polls_at_least_once
    [of "scripted (ready_at 2) []" "''h1''" True False False True io0 "Inr ''jeha1''"
        "\<lparr>fetches = 2, sleeps = [1]\<rparr>" "''h1''" ]
    run
  have a: "fetches io0 < fetches \<lparr>fetches = 2, sleeps = [1]\<rparr>
     \<and> length (sleeps \<lparr>fetches = 2, sleeps = [1]\<rparr>) - length (sleeps io0)
        < fetches \<lparr>fetches = 2, sleeps = [1]\<rparr> - fetches io0"
    by blast
  from export_history_polls_at_least_once
    [of "scripted always_pending [(''state'', ''ok'')]" "''h1''" True False False True io0 _ _
        "''d1''" None True "- 5" 1024]
  have b: "0 < fetches (snd (download_dataset (scripted always_pending [(''state'', ''ok'')])
                          ''h1'' ''d1'' None True False (- 5) 1024 io0))"
    by (simp add: io0_def)
  from run a b show ?thesis by simp
qed

section \<open>Facts about \<open>repository_revisions\<close> and \<open>download_dataset\<close>\<close>


lemma check_state_ok_iff:
  "check_state dataset_id dataset = None \<longleftrightarrow> map_of dataset ''state'' = Some ''ok''"
  by (auto simp: check_state_def split: option.splits)

lemma raise_DatasetStateException:
  "raise_named ''DatasetStateException'' e = NameError ''DatasetStateException''"
  by (simp add: raise_named_def module_globals_def builtin_exceptions_def)

lemma check_state_not_ok:
  "map_of dataset ''state'' = Some st \<Longrightarrow> st \<noteq> ''ok'' \<Longrightarrow>
     check_state dataset_id dataset = Some (NameError ''DatasetStateException'')"
  by (simp add: check_state_def raise_DatasetStateException)

lemma download_dataset_not_ok:
  assumes "get_json c (make_url c history_id True @ ''/'' @ dataset_id) (fetches s) = Inr dataset"
    and "map_of dataset ''state'' = Some st" and "st \<noteq> ''ok''"
  shows "download_dataset c history_id dataset_id fp u False maxwait cs s =
           (Inl (NameError ''DatasetStateException''), fetched s)"
  using assms by (simp add: download_dataset_def show_dataset_def check_state_not_ok)

section \<open>Only truthy filters reach the request\<close>



section \<open>The failed-state branch of \<open>download_dataset\<close>\<close>

text \<open>
  C3. The claim: a first snapshot in a failed state makes the wait raise
  \<open>DatasetStateException\<close>, carrying the observed state, after one request and no
  sleep. The code running on a dataset in state \<open>error\<close>, without
  \<open>wait_for_completion\<close>: one request, no sleep, and then the \<open>raise\<close> of line 304
  fails on its own, because the module binds no name \<open>DatasetStateException\<close>; what the
  caller receives is a \<open>NameError\<close> that carries no state.
\<close>

theorem download_dataset_error_state_raises_NameError:
  "download_dataset (scripted always_pending [(''state'', ''error'')])
      ''h1'' ''d1'' None True False 12000 1024 io0 =
     (Inl (NameError ''DatasetStateException''), \<lparr>fetches = 1, sleeps = []\<rparr>)"
proof -
  have "download_dataset (scripted always_pending [(''state'', ''error'')])
      ''h1'' ''d1'' None True False 12000 1024 io0 =
     (Inl (NameError ''DatasetStateException''), fetched io0)"
    by (rule download_dataset_not_ok
          [where st = "''error''" and dataset = "[(''state'', ''error'')]"])
       (simp_all add: scripted_def)
  then show ?thesis by (simp add: fetched_def io0_def)
qed

text \<open>
  C6. The claim: the success predicate holds exactly for the state \<open>ok\<close>
  (\<open>check_state_ok_iff\<close> above), and for every other state \<open>download_dataset\<close>
  raises the failed-state error. The code running on a dataset in state \<open>running\<close>:
  the check of line 303 rejects it, as claimed, but what line 304 raises is the
  \<open>NameError\<close> of the unbound class name, not the failed-state error
  (\<open>download_dataset_not_ok\<close> above, for every state other than \<open>ok\<close>).
\<close>

theorem download_dataset_running_state_raises_NameError:
  "download_dataset (scripted always_pending [(''name'', ''reads''), (''state'', ''running'')])
      ''h1'' ''d1'' (Some ''/tmp'') True False 12000 1024 io0 =
     (Inl (NameError ''DatasetStateException''), \<lparr>fetches = 1, sleeps = []\<rparr>)"
proof -
  have "download_dataset (scripted always_pending [(''name'', ''reads''), (''state'', ''running'')])
      ''h1'' ''d1'' (Some ''/tmp'') True False 12000 1024 io0 =
     (Inl (NameError ''DatasetStateException''), fetched io0)"
    by (rule download_dataset_not_ok
          [where st = "''running''"
             and dataset = "[(''name'', ''reads''), (''state'', ''running'')]"])
       (simp_all add: scripted_def)
  then show ?thesis by (simp add: fetched_def io0_def)
qed

end
